theory Spec2Isabelle
  imports Complex_Main "HOL-Library.Multiset"
begin

section \<open>Data model\<close>

text \<open>
  Python floats are modelled as \<^typ>\<open>real\<close>: every statement below is about exact
  arithmetic (no rounding, no infinities, no NaN).  Python strings are modelled as
  \<^typ>\<open>string\<close>; the string functions below are exact for ASCII text.
\<close>

text \<open>
  The \<^verbatim>\<open>Isotope\<close> dataclass of \<^verbatim>\<open>isotopes_db.py\<close>.
\<close>

record isotope =
  element :: string
  symbol :: string
  A :: int
  mass_u :: real
  abundance_percent :: real
  stable :: bool

text \<open>
  A table is a Python dict from symbol to isotope list, kept as an association list in
  insertion order; \<^const>\<open>map_of\<close> is the lookup.
\<close>

type_synonym table = "(string \<times> isotope list) list"

text \<open>
  A row of \<^verbatim>\<open>csv.DictReader\<close>: a dict from column name to a cell.  A cell is a
  string, or \<^verbatim>\<open>None\<close> when the line has fewer fields than the header.
\<close>

datatype cell = Str string | NoneCell

type_synonym row = "(string \<times> cell) list"

text \<open>
  Exceptions are values: the Python class with the message raised.  The messages are
  \<^item> \<open>SameLength\<close>: "masses_u and weight_percents must have the same length."
  \<^item> \<open>MassesPositive\<close>: "All masses must be positive."
  \<^item> \<open>WeightsNonnegative\<close>: "All weight entries must be nonnegative."
  \<^item> \<open>SumZero\<close>: "Sum of weight percents/fractions is zero."
  \<^item> \<open>DenominatorZero\<close>: "Denominator became zero; check inputs."
  \<^item> \<open>NoStableData s\<close>: "No stable isotope data for element symbol 's'. Provide
    'isotopes.csv' with stable isotopes and abundances."
  \<^item> \<open>AbundanceSum s t\<close>: "Abundances for s sum to t%, not ~100%. Check your input CSV
    for that element." (\<open>t\<close> printed with three decimals)
  \<^item> \<open>BadRow r\<close>: "Bad row in CSV: r" followed by the text of the caught exception.
\<close>

datatype message =
    SameLength
  | MassesPositive
  | WeightsNonnegative
  | SumZero
  | DenominatorZero
  | NoStableData string
  | AbundanceSum string real
  | BadRow row

datatype error = ValueError message | ZeroDivisionError message | KeyError message

text \<open>
  What the code reads from outside: the file system (a path gives the rows that
  \<^verbatim>\<open>csv.DictReader\<close> yields, or nothing when the path does not exist) and the
  built-in conversions \<^verbatim>\<open>int()\<close> and \<^verbatim>\<open>float()\<close> on a string
  (\<open>None\<close> where they raise).
\<close>

record env =
  files :: "string \<Rightarrow> row list option"
  int_of :: "string \<Rightarrow> int option"
  float_of :: "string \<Rightarrow> real option"

section \<open>String methods\<close>

definition ascii_lowercase :: string where
  "ascii_lowercase = ''abcdefghijklmnopqrstuvwxyz''"

definition ascii_uppercase :: string where
  "ascii_uppercase = ''ABCDEFGHIJKLMNOPQRSTUVWXYZ''"

definition upper_char :: "char \<Rightarrow> char" where
  "upper_char c = (case map_of (zip ascii_lowercase ascii_uppercase) c of
                     Some u \<Rightarrow> u | None \<Rightarrow> c)"

definition lower_char :: "char \<Rightarrow> char" where
  "lower_char c = (case map_of (zip ascii_uppercase ascii_lowercase) c of
                     Some l \<Rightarrow> l | None \<Rightarrow> c)"

definition upper :: "string \<Rightarrow> string" where
  "upper s = map upper_char s"

definition lower :: "string \<Rightarrow> string" where
  "lower s = map lower_char s"

text \<open>\<^verbatim>\<open>str.capitalize\<close>: the first character upper-cased, the rest lower-cased.\<close>

definition capitalize :: "string \<Rightarrow> string" where
  "capitalize s = (case s of [] \<Rightarrow> [] | c # cs \<Rightarrow> upper_char c # lower cs)"

text \<open>
  \<^verbatim>\<open>str.isspace\<close> on one ASCII character: tab, line feed, vertical tab, form feed,
  carriage return, the separators 0x1C to 0x1F, and the space.
\<close>

definition isspace :: "char \<Rightarrow> bool" where
  "isspace c \<longleftrightarrow> c \<in> set [CHR 0x09, CHR 0x0A, CHR 0x0B, CHR 0x0C, CHR 0x0D,
                            CHR 0x1C, CHR 0x1D, CHR 0x1E, CHR 0x1F, CHR 0x20]"

definition strip :: "string \<Rightarrow> string" where
  "strip s = rev (dropWhile isspace (rev (dropWhile isspace s)))"

section \<open>\<^verbatim>\<open>atomic_weight_from_weight_percent.py\<close>\<close>

text \<open>
  The generator sum \<^verbatim>\<open>sum((w / m) for w, m in zip(ws, masses_u))\<close> of both
  branches.
\<close>

definition denom :: "real list \<Rightarrow> real list \<Rightarrow> real" where
  "denom ws masses_u = sum_list (map (\<lambda>(w, m). w / m) (zip ws masses_u))"

definition atomic_weight_from_weight_percent :: "real list \<Rightarrow> real list \<Rightarrow> error + real" where
  "atomic_weight_from_weight_percent masses_u weight_percents =
     (if length masses_u \<noteq> length weight_percents then Inl (ValueError SameLength)
      else if list_ex (\<lambda>m. m \<le> 0) masses_u then Inl (ValueError MassesPositive)
      else if list_ex (\<lambda>w. w < 0) weight_percents then Inl (ValueError WeightsNonnegative)
      else
        let total = sum_list weight_percents in
        if total = 0 then Inl (ValueError SumZero)
        else if \<bar>total - 100\<bar> < 1 then
          (let d = denom weight_percents masses_u in
           if d = 0 then Inl (ZeroDivisionError DenominatorZero)
           else Inr (total / d))
        else
          (let w_frac = map (\<lambda>w. w / total) weight_percents;
               d = denom w_frac masses_u in
           if d = 0 then Inl (ZeroDivisionError DenominatorZero)
           else Inr (1 / d)))"

text \<open>The two calls at the end of the module.\<close>

definition aw :: "error + real" where
  "aw = atomic_weight_from_weight_percent
          [238.0496, 239.0522, 240.0538, 241.0568, 242.0587] [15, 35, 15, 20, 15]"

definition aw2 :: "error + real" where
  "aw2 = atomic_weight_from_weight_percent
           [238.0496, 239.0522, 240.0538, 241.0568, 242.0587] [0.15, 0.35, 0.15, 0.20, 0.15]"

section \<open>\<^verbatim>\<open>isotopes_db.py\<close>\<close>

text \<open>The built-in seed table (Tin).\<close>

definition SEED :: table where
  "SEED = [(''Sn'',
     [\<lparr>element = ''Tin'', symbol = ''Sn'', A = 112, mass_u = 111.90482387, abundance_percent = 0.97, stable = True\<rparr>,
      \<lparr>element = ''Tin'', symbol = ''Sn'', A = 114, mass_u = 113.9027827, abundance_percent = 0.66, stable = True\<rparr>,
      \<lparr>element = ''Tin'', symbol = ''Sn'', A = 115, mass_u = 114.903344699, abundance_percent = 0.34, stable = True\<rparr>,
      \<lparr>element = ''Tin'', symbol = ''Sn'', A = 116, mass_u = 115.90174280, abundance_percent = 14.54, stable = True\<rparr>,
      \<lparr>element = ''Tin'', symbol = ''Sn'', A = 117, mass_u = 116.90295398, abundance_percent = 7.68, stable = True\<rparr>,
      \<lparr>element = ''Tin'', symbol = ''Sn'', A = 118, mass_u = 117.90160657, abundance_percent = 24.22, stable = True\<rparr>,
      \<lparr>element = ''Tin'', symbol = ''Sn'', A = 119, mass_u = 118.90331117, abundance_percent = 8.59, stable = True\<rparr>,
      \<lparr>element = ''Tin'', symbol = ''Sn'', A = 120, mass_u = 119.90220163, abundance_percent = 32.58, stable = True\<rparr>,
      \<lparr>element = ''Tin'', symbol = ''Sn'', A = 122, mass_u = 121.9034438, abundance_percent = 4.63, stable = True\<rparr>,
      \<lparr>element = ''Tin'', symbol = ''Sn'', A = 124, mass_u = 123.9052766, abundance_percent = 5.79, stable = True\<rparr>])]"

text \<open>\<^verbatim>\<open>str(v)\<close> of a cell and \<^verbatim>\<open>row.get(key, default)\<close>.\<close>

definition str_of :: "cell \<Rightarrow> string" where
  "str_of v = (case v of Str s \<Rightarrow> s | NoneCell \<Rightarrow> ''None'')"

definition row_get :: "row \<Rightarrow> string \<Rightarrow> cell \<Rightarrow> cell" where
  "row_get r key dflt = (case map_of r key of None \<Rightarrow> dflt | Some v \<Rightarrow> v)"

text \<open>
  The filter of \<^verbatim>\<open>load_csv\<close>: a row is kept when
  \<^verbatim>\<open>str(row.get("stable", "True")).strip().lower()\<close> is one of the four markers.
\<close>

definition stable_marker :: "row \<Rightarrow> bool" where
  "stable_marker r \<longleftrightarrow>
     lower (strip (str_of (row_get r ''stable'' (Str ''True''))))
       \<in> set [''true'', ''1'', ''yes'', ''y'']"

text \<open>
  The \<^verbatim>\<open>try\<close> block of \<^verbatim>\<open>load_csv\<close>.  A missing column (KeyError), a
  \<^verbatim>\<open>None\<close> cell (AttributeError on \<^verbatim>\<open>strip\<close>, TypeError in
  \<^verbatim>\<open>int\<close> and \<^verbatim>\<open>float\<close>) and a text that does not convert (ValueError) are
  all caught and raised again as the ValueError of the bad row.
\<close>

definition make_isotope :: "env \<Rightarrow> row \<Rightarrow> error + isotope" where
  "make_isotope ev r =
     (case (map_of r ''element'', map_of r ''symbol'', map_of r ''A'',
            map_of r ''mass_u'', map_of r ''abundance_percent'') of
        (Some (Str e), Some (Str s), Some (Str a), Some (Str m), Some (Str p)) \<Rightarrow>
          (case (int_of ev a, float_of ev m, float_of ev p) of
             (Some a', Some m', Some p') \<Rightarrow>
               Inr \<lparr>element = strip e, symbol = strip s, A = a', mass_u = m',
                    abundance_percent = p', stable = True\<rparr>
           | _ \<Rightarrow> Inl (ValueError (BadRow r)))
      | _ \<Rightarrow> Inl (ValueError (BadRow r)))"

text \<open>\<^verbatim>\<open>db.setdefault(key, []).append(iso)\<close>.\<close>

fun setdefault_append :: "table \<Rightarrow> string \<Rightarrow> isotope \<Rightarrow> table" where
  "setdefault_append [] key isot = [(key, [isot])]"
| "setdefault_append ((k, isos) # db) key isot =
     (if k = key then (k, isos @ [isot]) # db
      else (k, isos) # setdefault_append db key isot)"

text \<open>The loop over the rows of the reader, with the table built so far.\<close>

fun load_rows :: "env \<Rightarrow> row list \<Rightarrow> table \<Rightarrow> error + table" where
  "load_rows ev [] db = Inr db"
| "load_rows ev (r # rows) db =
     (if \<not> stable_marker r then load_rows ev rows db
      else (case make_isotope ev r of
              Inl e \<Rightarrow> Inl e
            | Inr isot \<Rightarrow> load_rows ev rows (setdefault_append db (symbol isot) isot)))"

definition load_csv :: "env \<Rightarrow> string \<Rightarrow> error + table" where
  "load_csv ev path =
     (case files ev path of
        None \<Rightarrow> Inr []
      | Some rows \<Rightarrow>
          (case load_rows ev rows [] of
             Inl e \<Rightarrow> Inl e
           | Inr db \<Rightarrow> Inr (map (\<lambda>(symb, isos). (symb, sort_key A isos)) db)))"

definition get_database :: "env \<Rightarrow> string \<Rightarrow> error + table" where
  "get_database ev csv_path =
     (case load_csv ev csv_path of
        Inl e \<Rightarrow> Inl e
      | Inr db \<Rightarrow> if db \<noteq> [] then Inr db else Inr SEED)"

text \<open>
  Lines 81 to 86 of \<^verbatim>\<open>atomic_weight\<close>: the symbol as it is looked up.  The first
  test is on the length of the argument before it is stripped.
\<close>

definition canonical_symbol :: "string \<Rightarrow> string" where
  "canonical_symbol symb =
     (let s = (if length symb \<le> 2 then capitalize (strip symb) else strip symb)
      in if length s = 1 then upper s
         else if length s = 2 then upper [s ! 0] @ lower [s ! 1]
         else s)"

text \<open>
  \<^verbatim>\<open>db = db or get_database()\<close>: a table that is \<^verbatim>\<open>None\<close> or empty is
  replaced by the default database, read from \<^verbatim>\<open>isotopes.csv\<close>.
\<close>

definition db_or_default :: "env \<Rightarrow> table option \<Rightarrow> error + table" where
  "db_or_default ev db =
     (case db of
        None \<Rightarrow> get_database ev ''isotopes.csv''
      | Some t \<Rightarrow> if t \<noteq> [] then Inr t else get_database ev ''isotopes.csv'')"

definition atomic_weight :: "env \<Rightarrow> string \<Rightarrow> table option \<Rightarrow> error + real" where
  "atomic_weight ev symb db =
     (let s = canonical_symbol symb in
      case db_or_default ev db of
        Inl e \<Rightarrow> Inl e
      | Inr t \<Rightarrow>
          (case map_of t s of
             None \<Rightarrow> Inl (KeyError (NoStableData s))
           | Some isotopes \<Rightarrow>
               let total_abund = sum_list (map abundance_percent isotopes) in
               if \<bar>total_abund - 100\<bar> > 0.5
               then Inl (ValueError (AbundanceSum s total_abund))
               else Inr (sum_list (map (\<lambda>i. (abundance_percent i / 100) * mass_u i) isotopes))))"

section \<open>Notions used in the statements\<close>

text \<open>The ASCII letters.\<close>

definition ascii_letter :: "char \<Rightarrow> bool" where
  "ascii_letter c \<longleftrightarrow> c \<in> set ascii_lowercase \<or> c \<in> set ascii_uppercase"

text \<open>All isotope records of a table, as a multiset.\<close>

definition records :: "table \<Rightarrow> isotope multiset" where
  "records db = mset (concat (map snd db))"

section \<open>Example data\<close>

text \<open>A run in a directory without files: nothing is read, so nothing is converted.\<close>

definition no_files :: env where
  "no_files = \<lparr>files = (\<lambda>path. None), int_of = (\<lambda>s. None), float_of = (\<lambda>s. None)\<rparr>"

text \<open>
  A run in a directory where \<^verbatim>\<open>isotopes.csv\<close> holds the given rows.  The
  conversions are given on the three texts that occur in the example row:
  \<^verbatim>\<open>int("112")\<close>, \<^verbatim>\<open>float("111.9")\<close> and \<^verbatim>\<open>float("100")\<close>.
\<close>

definition one_file :: "row list \<Rightarrow> env" where
  "one_file rows =
     \<lparr>files = (\<lambda>path. if path = ''isotopes.csv'' then Some rows else None),
      int_of = (\<lambda>s. if s = ''112'' then Some 112 else None),
      float_of = (\<lambda>s. if s = ''111.9'' then Some 111.9 else if s = ''100'' then Some 100 else None)\<rparr>"

text \<open>A row of a file whose header has no \<^verbatim>\<open>stable\<close> column.\<close>

definition tin_112 :: row where
  "tin_112 = [(''element'', Str ''Tin''), (''symbol'', Str ''Sn''), (''A'', Str ''112''),
              (''mass_u'', Str ''111.9''), (''abundance_percent'', Str ''100'')]"

text \<open>Two tables of one made-up element: abundances that sum to 99.6 and to 90.\<close>

definition two_isotopes :: table where
  "two_isotopes = [(''Xx'',
     [\<lparr>element = ''Example'', symbol = ''Xx'', A = 10, mass_u = 10, abundance_percent = 59.6, stable = True\<rparr>,
      \<lparr>element = ''Example'', symbol = ''Xx'', A = 12, mass_u = 12, abundance_percent = 40, stable = True\<rparr>])]"

definition sum_90 :: table where
  "sum_90 = [(''Xx'',
     [\<lparr>element = ''Example'', symbol = ''Xx'', A = 10, mass_u = 10, abundance_percent = 50, stable = True\<rparr>,
      \<lparr>element = ''Example'', symbol = ''Xx'', A = 12, mass_u = 12, abundance_percent = 40, stable = True\<rparr>])]"

section \<open>Properties of \<^verbatim>\<open>atomic_weight_from_weight_percent\<close>\<close>

lemma sum_list_nonneg_real:
  fixes ws :: "real list"
  shows "\<forall>w\<in>set ws. 0 \<le> w \<Longrightarrow> 0 \<le> sum_list ws"
  by (induction ws) auto

lemma denom_bounds:
  fixes ws ms :: "real list"
  assumes "length ws = length ms" and "0 < lo"
    and "\<forall>m\<in>set ms. lo \<le> m \<and> m \<le> hi" and "\<forall>w\<in>set ws. 0 \<le> w"
  shows "sum_list ws / hi \<le> denom ws ms \<and> denom ws ms \<le> sum_list ws / lo"
  using assms unfolding denom_def
proof (induction ws ms rule: list_induct2)
  case Nil
  then show ?case by simp
next
  case (Cons w ws m ms)
  have m: "lo \<le> m" "m \<le> hi" "0 < m" "0 < hi" and w: "0 \<le> w"
    using Cons.prems by auto
  have a: "w / hi \<le> w / m" using m w by (simp add: frac_le)
  have b: "w / m \<le> w / lo" using m w \<open>0 < lo\<close> by (simp add: frac_le)
  from Cons.IH Cons.prems a b show ?case
    by (simp add: add_divide_distrib add_mono)
qed

lemma denom_scaled:
  "denom (map (\<lambda>w. w / t) ws) ms = denom ws ms / t"
  unfolding denom_def
proof (induction ws arbitrary: ms)
  case Nil
  then show ?case by simp
next
  case (Cons w ws)
  then show ?case by (cases ms) (simp_all add: add_divide_distrib)
qed

lemma masses_range:
  fixes ms :: "real list"
  assumes "ms \<noteq> []" and "\<forall>m\<in>set ms. 0 < m"
  shows "0 < Min (set ms)" and "\<forall>m\<in>set ms. Min (set ms) \<le> m \<and> m \<le> Max (set ms)"
proof -
  have "Min (set ms) \<in> set ms" using assms(1) by (intro Min_in) auto
  then show "0 < Min (set ms)" using assms(2) by auto
  show "\<forall>m\<in>set ms. Min (set ms) \<le> m \<and> m \<le> Max (set ms)" by auto
qed

lemma total_pos:
  fixes ws :: "real list"
  assumes "\<forall>w\<in>set ws. 0 \<le> w" and "sum_list ws \<noteq> 0"
  shows "0 < sum_list ws"
  using sum_list_nonneg_real [OF assms(1)] assms(2) by simp

lemma denom_pos:
  fixes ws ms :: "real list"
  assumes len: "length ws = length ms"
    and ms: "\<forall>m\<in>set ms. 0 < m" and ws: "\<forall>w\<in>set ws. 0 \<le> w"
    and tot: "sum_list ws \<noteq> 0"
  shows "0 < denom ws ms"
proof -
  have ne: "ms \<noteq> []" using len tot by auto
  note r = masses_range [OF ne ms]
  have "Min (set ms) \<le> Max (set ms)" using ne by simp
  with r(1) have hi: "0 < Max (set ms)" by linarith
  have "0 < sum_list ws / Max (set ms)"
    using total_pos [OF ws tot] hi by simp
  also have "\<dots> \<le> denom ws ms"
    using denom_bounds [OF len r(1) r(2) ws] by simp
  finally show ?thesis .
qed

lemma denom_nth:
  fixes ws ms :: "real list"
  assumes "length ws = length ms"
  shows "denom ws ms = (\<Sum>i<length ms. ws ! i / ms ! i)"
proof -
  have "denom ws ms
      = (\<Sum>i = 0..<length (zip ws ms). (map (\<lambda>(w, m). w / m) (zip ws ms)) ! i)"
    unfolding denom_def by (simp add: sum_list_sum_nth)
  also have "\<dots> = (\<Sum>i = 0..<length ms. ws ! i / ms ! i)"
    using assms by (intro sum.cong) auto
  finally show ?thesis by (simp add: lessThan_atLeast0)
qed

lemma checks_pass:
  fixes masses weights :: "real list"
  assumes ms: "\<forall>m\<in>set masses. 0 < m" and ws: "\<forall>w\<in>set weights. 0 \<le> w"
  shows "\<not> list_ex (\<lambda>m. m \<le> 0) masses" and "\<not> list_ex (\<lambda>w. w < 0) weights"
  using ms ws by (auto simp: list_ex_iff)

lemma result_value:
  fixes masses weights :: "real list"
  assumes len: "length masses = length weights"
    and ms: "\<forall>m\<in>set masses. 0 < m" and ws: "\<forall>w\<in>set weights. 0 \<le> w"
    and tot: "sum_list weights \<noteq> 0"
  shows "atomic_weight_from_weight_percent masses weights =
     (if \<bar>sum_list weights - 100\<bar> < 1
      then Inr (sum_list weights / denom weights masses)
      else Inr (1 / denom (map (\<lambda>w. w / sum_list weights) weights) masses))"
proof -
  have d1: "0 < denom weights masses"
    using denom_pos [OF len [symmetric] ms ws tot] .
  have d2: "0 < denom (map (\<lambda>w. w / sum_list weights) weights) masses"
    using d1 total_pos [OF ws tot] by (simp add: denom_scaled)
  show ?thesis
    unfolding atomic_weight_from_weight_percent_def Let_def
    using len checks_pass [OF ms ws] tot d1 d2 by auto
qed

text \<open>
  Claim C1.  For masses and weights of equal length, with every mass positive, every
  weight non-negative and a non-zero sum of weights, the function computes the total of
  the weights; when the total is less than 1 away from 100 it returns the total divided
  by the sum of the ratios weight/mass, and otherwise it returns 1 divided by the sum of
  the ratios (weight/total)/mass.
\<close>
theorem weight_percent_formula:
  fixes masses weights :: "real list"
  assumes len: "length masses = length weights"
    and ms: "\<forall>m\<in>set masses. 0 < m" and ws: "\<forall>w\<in>set weights. 0 \<le> w"
    and tot: "sum_list weights \<noteq> 0"
  shows "atomic_weight_from_weight_percent masses weights =
     (let total = (\<Sum>i<length weights. weights ! i) in
      if \<bar>total - 100\<bar> < 1
      then Inr (total / (\<Sum>i<length masses. weights ! i / masses ! i))
      else Inr (1 / (\<Sum>i<length masses. (weights ! i / total) / masses ! i)))"
proof -
  have t: "sum_list weights = (\<Sum>i<length weights. weights ! i)"
    by (simp add: sum_list_sum_nth lessThan_atLeast0)
  have e1: "denom weights masses = (\<Sum>i<length masses. weights ! i / masses ! i)"
    using len by (simp add: denom_nth)
  have e2: "denom (map (\<lambda>w. w / sum_list weights) weights) masses
      = (\<Sum>i<length masses. (weights ! i / sum_list weights) / masses ! i)"
    using len by (simp add: denom_nth)
  show ?thesis
    unfolding result_value [OF len ms ws tot] e1 e2 Let_def t [symmetric] by simp
qed

theorem weight_percent_formula_witness:
  "atomic_weight_from_weight_percent [2, 4] [50, 50] = Inr (8 / 3)
   \<and> atomic_weight_from_weight_percent [2, 4] [1, 1] = Inr (8 / 3)"
  using weight_percent_formula [of "[2, 4]" "[50, 50]"]
        weight_percent_formula [of "[2, 4]" "[1, 1]"]
  by (simp add: lessThan_Suc numeral_2_eq_2)

text \<open>
  Claim C7.  Under the same preconditions the denominator of the percent branch and the
  denominator of the fraction branch are strictly positive, so the ZeroDivisionError is
  never raised.
\<close>
theorem denominator_positive:
  fixes masses weights :: "real list"
  assumes len: "length masses = length weights"
    and ms: "\<forall>m\<in>set masses. 0 < m" and ws: "\<forall>w\<in>set weights. 0 \<le> w"
    and tot: "sum_list weights \<noteq> 0"
  shows "0 < denom weights masses
       \<and> 0 < denom (map (\<lambda>w. w / sum_list weights) weights) masses
       \<and> (\<forall>msg. atomic_weight_from_weight_percent masses weights \<noteq> Inl (ZeroDivisionError msg))"
proof -
  have d1: "0 < denom weights masses"
    using denom_pos [OF len [symmetric] ms ws tot] .
  have d2: "0 < denom (map (\<lambda>w. w / sum_list weights) weights) masses"
    using d1 total_pos [OF ws tot] by (simp add: denom_scaled)
  have "\<forall>msg. atomic_weight_from_weight_percent masses weights \<noteq> Inl (ZeroDivisionError msg)"
    unfolding result_value [OF len ms ws tot] by simp
  with d1 d2 show ?thesis by simp
qed

theorem denominator_positive_witness:
  "0 < denom [50, 50] [2, 4] \<and> 0 < denom (map (\<lambda>w. w / sum_list [50, 50]) [50, 50]) [2, 4]
   \<and> (\<forall>msg. atomic_weight_from_weight_percent [2, 4] [50, 50] \<noteq> Inl (ZeroDivisionError msg))"
  using denominator_positive [of "[2, 4]" "[50, 50]"] by simp

text \<open>
  Claim C10.  Under the same preconditions the function returns a value, and the value
  lies between the least and the greatest of the masses.
\<close>
theorem result_between_min_and_max:
  fixes masses weights :: "real list"
  assumes len: "length masses = length weights"
    and ms: "\<forall>m\<in>set masses. 0 < m" and ws: "\<forall>w\<in>set weights. 0 \<le> w"
    and tot: "sum_list weights \<noteq> 0"
  shows "\<exists>r. atomic_weight_from_weight_percent masses weights = Inr r
            \<and> Min (set masses) \<le> r \<and> r \<le> Max (set masses)"
proof -
  let ?t = "sum_list weights" and ?d = "denom weights masses"
  have ne: "masses \<noteq> []" using len tot by auto
  note r = masses_range [OF ne ms]
  have tpos: "0 < ?t" using total_pos [OF ws tot] .
  have dpos: "0 < ?d" using denom_pos [OF len [symmetric] ms ws tot] .
  have "Min (set masses) \<le> Max (set masses)" using ne by simp
  with r(1) have hi: "0 < Max (set masses)" by linarith
  note b = denom_bounds [OF len [symmetric] r(1) r(2) ws]
  have lo_le: "Min (set masses) \<le> ?t / ?d"
  proof -
    have "?d * Min (set masses) \<le> ?t"
      using b r(1) by (simp add: pos_le_divide_eq)
    then show ?thesis using dpos by (simp add: pos_le_divide_eq mult.commute)
  qed
  have le_hi: "?t / ?d \<le> Max (set masses)"
  proof -
    have "?t \<le> ?d * Max (set masses)"
      using b hi by (simp add: pos_divide_le_eq)
    then show ?thesis using dpos by (simp add: pos_divide_le_eq mult.commute)
  qed
  have same: "1 / denom (map (\<lambda>w. w / ?t) weights) masses = ?t / ?d"
    using tpos dpos by (simp add: denom_scaled)
  show ?thesis
    unfolding result_value [OF len ms ws tot] same using lo_le le_hi by simp
qed

theorem result_between_min_and_max_witness:
  "\<exists>r. atomic_weight_from_weight_percent [2, 4] [1, 1] = Inr r
        \<and> Min (set [2, 4]) \<le> r \<and> r \<le> Max (set [2, 4])"
  using result_between_min_and_max [of "[2, 4]" "[1, 1]"] by simp

lemma aw_value:
  "aw = Inr (622728726231642352715559571132 / 2595820067892144038111535125)"
  unfolding aw_def atomic_weight_from_weight_percent_def denom_def by simp

lemma aw2_value:
  "aw2 = Inr (622728726231642352715559571132 / 2595820067892144038111535125)"
  unfolding aw2_def atomic_weight_from_weight_percent_def denom_def by simp

text \<open>
  Claim C3, amended.  The two branches compute the same number: for weights with a
  non-zero sum, the total divided by the denominator of the percent branch is 1 divided
  by the denominator of the fraction branch.  The call with the percents and the call
  with the fractions return the same value, which is 100 divided by the sum of the ratios
  percent/mass; the value lies between 239.8967 and 239.8968.
\<close>

theorem percent_fraction_example:
  "(sum_list ws \<noteq> 0 \<longrightarrow>
      sum_list ws / denom ws ms = 1 / denom (map (\<lambda>w. w / sum_list ws) ws) ms)
   \<and> aw = aw2
   \<and> aw = Inr (100 / (15 / 238.0496 + 35 / 239.0522 + 15 / 240.0538 + 20 / 241.0568 + 15 / 242.0587))
   \<and> 239.8967 < 100 / (15 / 238.0496 + 35 / 239.0522 + 15 / 240.0538 + 20 / 241.0568 + 15 / 242.0587 :: real)
   \<and> 100 / (15 / 238.0496 + 35 / 239.0522 + 15 / 240.0538 + 20 / 241.0568 + 15 / 242.0587 :: real) < 239.8968"
  unfolding aw_value aw2_value by (simp add: denom_scaled)

theorem percent_fraction_example_witness:
  "sum_list [1, 1] / denom [1, 1] [2, 4] = 1 / denom (map (\<lambda>w. w / sum_list [1, 1]) [1, 1]) [2, 4]
   \<and> sum_list [1, 1] / denom [1, 1] [2, 4] = 8 / 3"
  using percent_fraction_example [of "[1, 1]" "[2, 4]"] by (simp add: denom_def)

text \<open>The value is more than 0.43 away from 240.333.\<close>

theorem percent_fraction_example_counterexample:
  "\<not> (\<exists>r. aw = Inr r \<and> \<bar>r - 240.333\<bar> < 0.43)"
  unfolding aw_value by simp

text \<open>
  Claim C4.  The four precondition errors, each the outcome of the whole call: the error
  of the lengths is raised exactly when the lengths differ; the error of the masses
  exactly when the lengths agree and a mass is zero or negative; the error of the weights
  exactly when moreover all masses are positive and a weight is negative; the error of the
  sum exactly when moreover all weights are non-negative and they sum to zero.  An error
  is raised exactly when one of the four conditions holds, it is one of these four, which
  differ from each other, and no value is returned then.
\<close>

theorem precondition_errors:
  fixes masses weights :: "real list"
  shows
  "(atomic_weight_from_weight_percent masses weights = Inl (ValueError SameLength)
      \<longleftrightarrow> length masses \<noteq> length weights)
 \<and> (atomic_weight_from_weight_percent masses weights = Inl (ValueError MassesPositive)
      \<longleftrightarrow> length masses = length weights \<and> (\<exists>m\<in>set masses. m \<le> 0))
 \<and> (atomic_weight_from_weight_percent masses weights = Inl (ValueError WeightsNonnegative)
      \<longleftrightarrow> length masses = length weights \<and> (\<forall>m\<in>set masses. 0 < m)
          \<and> (\<exists>w\<in>set weights. w < 0))
 \<and> (atomic_weight_from_weight_percent masses weights = Inl (ValueError SumZero)
      \<longleftrightarrow> length masses = length weights \<and> (\<forall>m\<in>set masses. 0 < m)
          \<and> (\<forall>w\<in>set weights. 0 \<le> w) \<and> sum_list weights = 0)
 \<and> ((\<exists>e. atomic_weight_from_weight_percent masses weights = Inl e)
      \<longleftrightarrow> length masses \<noteq> length weights \<or> (\<exists>m\<in>set masses. m \<le> 0)
          \<or> (\<exists>w\<in>set weights. w < 0) \<or> sum_list weights = 0)
 \<and> (\<forall>e. atomic_weight_from_weight_percent masses weights = Inl e
      \<longrightarrow> e \<in> {ValueError SameLength, ValueError MassesPositive,
                 ValueError WeightsNonnegative, ValueError SumZero})
 \<and> distinct [ValueError SameLength, ValueError MassesPositive,
              ValueError WeightsNonnegative, ValueError SumZero]"
proof -
  let ?f = "atomic_weight_from_weight_percent masses weights"
  let ?L = "length masses \<noteq> length weights"
  let ?M = "\<exists>m\<in>set masses. m \<le> 0"
  let ?W = "\<exists>w\<in>set weights. w < 0"
  let ?Z = "sum_list weights = 0"
  have lm: "list_ex (\<lambda>m. m \<le> 0) masses \<longleftrightarrow> ?M"
    and lw: "list_ex (\<lambda>w. w < 0) weights \<longleftrightarrow> ?W"
    by (simp_all add: list_ex_iff)
  have a: "?f = Inl (ValueError SameLength)" if "?L"
    unfolding atomic_weight_from_weight_percent_def lm lw using that by simp
  have b: "?f = Inl (ValueError MassesPositive)" if "\<not> ?L" "?M"
    unfolding atomic_weight_from_weight_percent_def lm lw using that by simp
  have c: "?f = Inl (ValueError WeightsNonnegative)" if "\<not> ?L" "\<not> ?M" "?W"
    unfolding atomic_weight_from_weight_percent_def lm lw using that by simp
  have d: "?f = Inl (ValueError SumZero)" if "\<not> ?L" "\<not> ?M" "\<not> ?W" "?Z"
    unfolding atomic_weight_from_weight_percent_def lm lw using that by simp
  have e: "\<exists>r. ?f = Inr r" if "\<not> ?L" "\<not> ?M" "\<not> ?W" "\<not> ?Z"
  proof -
    have "length masses = length weights" "\<forall>m\<in>set masses. 0 < m"
      "\<forall>w\<in>set weights. 0 \<le> w" "sum_list weights \<noteq> 0"
      using that by (auto simp: not_le not_less)
    then show ?thesis by (simp add: result_value)
  qed
  have pos: "(\<forall>m\<in>set masses. 0 < m) \<longleftrightarrow> \<not> ?M" "(\<forall>w\<in>set weights. 0 \<le> w) \<longleftrightarrow> \<not> ?W"
    by (auto simp: not_le not_less)
  consider "?L" | "\<not> ?L" "?M" | "\<not> ?L" "\<not> ?M" "?W" | "\<not> ?L" "\<not> ?M" "\<not> ?W" "?Z"
    | "\<not> ?L" "\<not> ?M" "\<not> ?W" "\<not> ?Z"
    by blast
  then show ?thesis
  proof cases
    case 1
    then show ?thesis unfolding pos using a by simp
  next
    case 2
    then show ?thesis unfolding pos using b by simp
  next
    case 3
    then show ?thesis unfolding pos using c by simp
  next
    case 4
    then show ?thesis unfolding pos using d by simp
  next
    case 5
    then obtain r where "?f = Inr r" using e by blast
    with 5 show ?thesis unfolding pos by simp
  qed
qed

theorem precondition_errors_witness:
  "atomic_weight_from_weight_percent [1, 2, 3] [50, 50] = Inl (ValueError SameLength)
 \<and> atomic_weight_from_weight_percent [1, 0] [50, 50] = Inl (ValueError MassesPositive)
 \<and> atomic_weight_from_weight_percent [1, 2] [50, - 50] = Inl (ValueError WeightsNonnegative)
 \<and> atomic_weight_from_weight_percent [1, 2] [0, 0] = Inl (ValueError SumZero)"
  using precondition_errors [of "[1, 2, 3]" "[50, 50]"] precondition_errors [of "[1, 0]" "[50, 50]"]
    precondition_errors [of "[1, 2]" "[50, - 50]"] precondition_errors [of "[1, 2]" "[0, 0]"]
  by simp

section \<open>Properties of \<^verbatim>\<open>atomic_weight\<close>\<close>

lemma upper_char_idem: "upper_char (upper_char c) = upper_char c"
  unfolding upper_char_def ascii_lowercase_def ascii_uppercase_def by simp

lemma lower_char_idem: "lower_char (lower_char c) = lower_char c"
  unfolding lower_char_def ascii_lowercase_def ascii_uppercase_def by simp

lemma letter_not_space: "ascii_letter c \<Longrightarrow> \<not> isspace c"
  unfolding ascii_letter_def isspace_def ascii_lowercase_def ascii_uppercase_def by auto

lemma upper_char_letter: "ascii_letter c \<Longrightarrow> ascii_letter (upper_char c)"
  unfolding ascii_letter_def upper_char_def ascii_lowercase_def ascii_uppercase_def by auto

lemma lower_char_letter: "ascii_letter c \<Longrightarrow> ascii_letter (lower_char c)"
  unfolding ascii_letter_def lower_char_def ascii_lowercase_def ascii_uppercase_def by auto

lemma strip_padded:
  assumes pre: "\<forall>c\<in>set pre. isspace c" and post: "\<forall>c\<in>set post. isspace c"
    and s: "s \<noteq> []" "\<not> isspace (hd s)" "\<not> isspace (last s)"
  shows "strip (pre @ s @ post) = s"
proof -
  have "dropWhile isspace (pre @ s @ post) = dropWhile isspace (s @ post)"
    by (rule dropWhile_append2) (use pre in auto)
  also have "\<dots> = s @ post"
    using s by (cases s) simp_all
  finally have 1: "dropWhile isspace (pre @ s @ post) = s @ post" .
  have "dropWhile isspace (rev post @ rev s) = dropWhile isspace (rev s)"
    by (rule dropWhile_append2) (use post in auto)
  then have "dropWhile isspace (rev (s @ post)) = dropWhile isspace (rev s)"
    by simp
  also have "\<dots> = rev s"
    using s by (cases "rev s") (simp_all add: hd_rev [symmetric])
  finally show ?thesis unfolding strip_def 1 by simp
qed

lemma length_strip_le: "length (strip s) \<le> length s"
proof -
  have "length (strip s) = length (dropWhile isspace (rev (dropWhile isspace s)))"
    by (simp add: strip_def)
  also have "\<dots> \<le> length (rev (dropWhile isspace s))"
    by (rule length_dropWhile_le)
  also have "\<dots> \<le> length s"
    by (simp add: length_dropWhile_le)
  finally show ?thesis .
qed

lemma short_list_cases:
  assumes "length xs \<le> 2"
  obtains "xs = []" | a where "xs = [a]" | a b where "xs = [a, b]"
proof (cases xs)
  case Nil
  then show ?thesis using that by simp
next
  case (Cons a ys)
  then show ?thesis using assms that by (cases ys) auto
qed

lemma canonical_symbol_spec:
  "canonical_symbol x =
     (let t = strip x in
      if length t = 1 then upper t
      else if length t = 2 then [upper_char (t ! 0), lower_char (t ! 1)]
      else t)"
proof (cases "length x \<le> 2")
  case False
  then show ?thesis by (simp add: canonical_symbol_def Let_def upper_def lower_def)
next
  case True
  then have "length (strip x) \<le> 2" using length_strip_le [of x] by linarith
  then show ?thesis
  proof (cases "strip x" rule: short_list_cases)
    case 1
    with True show ?thesis by (simp add: canonical_symbol_def capitalize_def)
  next
    case (2 a)
    with True show ?thesis
      by (simp add: canonical_symbol_def capitalize_def upper_def lower_def upper_char_idem)
  next
    case (3 a b)
    with True show ?thesis
      by (simp add: canonical_symbol_def capitalize_def upper_def lower_def
          upper_char_idem lower_char_idem)
  qed
qed

lemma canonical_symbol_padded:
  assumes pre: "\<forall>c\<in>set pre. isspace c" and post: "\<forall>c\<in>set post. isspace c"
    and len: "length s = 1 \<or> length s = 2" and letters: "\<forall>c\<in>set s. ascii_letter c"
  shows "canonical_symbol (pre @ s @ post) = upper_char (hd s) # lower (tl s)"
proof -
  have ne: "s \<noteq> []" using len by auto
  then have "hd s \<in> set s" "last s \<in> set s" by simp_all
  then have "\<not> isspace (hd s)" "\<not> isspace (last s)"
    using letters letter_not_space by blast+
  then have st: "strip (pre @ s @ post) = s"
    using strip_padded [OF pre post ne] by simp
  from len show ?thesis
  proof
    assume "length s = 1"
    then obtain a where "s = [a]" by (cases s) auto
    then show ?thesis
      unfolding canonical_symbol_spec st by (simp add: upper_def lower_def)
  next
    assume "length s = 2"
    then obtain a b where "s = [a, b]"
      by (cases s; cases "tl s") auto
    then show ?thesis
      unfolding canonical_symbol_spec st by (simp add: lower_def)
  qed
qed

text \<open>
  Claim C8 (for ASCII strings).  The symbol looked up is the argument with surrounding
  whitespace removed,
  upper-cased when one character is left, and with the first character upper-cased and
  the second lower-cased when two are left.  Hence a spelling of one or two ASCII letters
  in any case, with any whitespace around it, is looked up as its canonical form (first
  letter upper case, second lower case), the canonical form is looked up as itself, and
  \<^verbatim>\<open>atomic_weight\<close> gives the same outcome on both.
\<close>

theorem symbol_normalization:
  "canonical_symbol symb =
     (let t = strip symb in
      if length t = 1 then upper t
      else if length t = 2 then [upper_char (t ! 0), lower_char (t ! 1)]
      else t)
   \<and> ((\<forall>c\<in>set pre. isspace c) \<and> (\<forall>c\<in>set post. isspace c)
        \<and> (length s = 1 \<or> length s = 2) \<and> (\<forall>c\<in>set s. ascii_letter c)
      \<longrightarrow> canonical_symbol (upper_char (hd s) # lower (tl s)) = upper_char (hd s) # lower (tl s)
        \<and> canonical_symbol (pre @ s @ post) = upper_char (hd s) # lower (tl s)
        \<and> atomic_weight ev (pre @ s @ post) db
            = atomic_weight ev (upper_char (hd s) # lower (tl s)) db)"
proof (intro conjI impI)
  show "canonical_symbol symb =
     (let t = strip symb in
      if length t = 1 then upper t
      else if length t = 2 then [upper_char (t ! 0), lower_char (t ! 1)]
      else t)"
    by (rule canonical_symbol_spec)
next
  assume a: "(\<forall>c\<in>set pre. isspace c) \<and> (\<forall>c\<in>set post. isspace c)
        \<and> (length s = 1 \<or> length s = 2) \<and> (\<forall>c\<in>set s. ascii_letter c)"
  then have p: "canonical_symbol (pre @ s @ post) = upper_char (hd s) # lower (tl s)"
    using canonical_symbol_padded by blast
  have c: "canonical_symbol (upper_char (hd s) # lower (tl s)) = upper_char (hd s) # lower (tl s)"
  proof -
    let ?c = "upper_char (hd s) # lower (tl s)"
    have ne: "s \<noteq> []" using a by auto
    have len: "length ?c = 1 \<or> length ?c = 2"
      using a ne by (cases s) (auto simp: lower_def)
    have "hd s \<in> set s" "set (tl s) \<subseteq> set s"
      using ne by (simp_all add: list.set_sel(2) subsetI)
    then have letters: "\<forall>c\<in>set ?c. ascii_letter c"
      using a by (auto simp: lower_def upper_char_letter lower_char_letter)
    have "canonical_symbol ([] @ ?c @ []) = upper_char (hd ?c) # lower (tl ?c)"
      by (rule canonical_symbol_padded) (use len letters in simp_all)
    then show ?thesis
      by (simp add: lower_def upper_char_idem lower_char_idem)
  qed
  show "canonical_symbol (upper_char (hd s) # lower (tl s)) = upper_char (hd s) # lower (tl s)"
    by (rule c)
  show "canonical_symbol (pre @ s @ post) = upper_char (hd s) # lower (tl s)"
    by (rule p)
  show "atomic_weight ev (pre @ s @ post) db
            = atomic_weight ev (upper_char (hd s) # lower (tl s)) db"
    unfolding atomic_weight_def p c ..
qed

theorem symbol_normalization_witness:
  "canonical_symbol ''  sN '' = ''Sn''
   \<and> atomic_weight no_files ''  sN '' (Some SEED) = atomic_weight no_files ''Sn'' (Some SEED)"
  using symbol_normalization [of "[]" "''  ''" "'' ''" "''sN''" no_files "Some SEED"]
  by (simp add: isspace_def ascii_letter_def ascii_lowercase_def ascii_uppercase_def
      upper_char_def lower_char_def lower_def)

lemma atomic_weight_found:
  assumes "db_or_default ev db = Inr t" and "map_of t (canonical_symbol symb) = Some isos"
  shows "atomic_weight ev symb db =
     (if \<bar>sum_list (map abundance_percent isos) - 100\<bar> > 0.5
      then Inl (ValueError (AbundanceSum (canonical_symbol symb)
                  (sum_list (map abundance_percent isos))))
      else Inr (sum_list (map (\<lambda>i. (abundance_percent i / 100) * mass_u i) isos)))"
  using assms by (simp add: atomic_weight_def Let_def)

lemma sum_list_map_nth:
  fixes f :: "'a \<Rightarrow> real"
  shows "sum_list (map f xs) = (\<Sum>i<length xs. f (xs ! i))"
proof -
  have "sum_list (map f xs) = (\<Sum>i = 0..<length xs. map f xs ! i)"
    by (simp add: sum_list_sum_nth)
  also have "\<dots> = (\<Sum>i = 0..<length xs. f (xs ! i))"
    by (intro sum.cong) auto
  finally show ?thesis by (simp add: lessThan_atLeast0)
qed

text \<open>
  Claim C2.  When the canonical symbol is in the table and its abundances sum to within
  0.5 of 100, the result is the sum over its isotopes of (abundance / 100) times mass,
  with the abundances as they are; when they sum to exactly 100 the result is within
  1e-9 of that sum.
\<close>

theorem natural_weight_value:
  assumes "db_or_default ev db = Inr t"
    and "map_of t (canonical_symbol symb) = Some isos"
    and "\<bar>(\<Sum>i<length isos. abundance_percent (isos ! i)) - 100\<bar> \<le> 0.5"
  shows "atomic_weight ev symb db
           = Inr (\<Sum>i<length isos. (abundance_percent (isos ! i) / 100) * mass_u (isos ! i))
       \<and> ((\<Sum>i<length isos. abundance_percent (isos ! i)) = 100 \<longrightarrow>
            (\<exists>r. atomic_weight ev symb db = Inr r
               \<and> \<bar>r - (\<Sum>i<length isos. (abundance_percent (isos ! i) / 100) * mass_u (isos ! i))\<bar>
                   \<le> 1 / 10 ^ 9))"
proof -
  have "\<not> \<bar>sum_list (map abundance_percent isos) - 100\<bar> > 0.5"
    using assms(3) by (simp add: sum_list_map_nth)
  then have "atomic_weight ev symb db
           = Inr (\<Sum>i<length isos. (abundance_percent (isos ! i) / 100) * mass_u (isos ! i))"
    unfolding atomic_weight_found [OF assms(1,2)] by (simp add: sum_list_map_nth)
  then show ?thesis by simp
qed

theorem natural_weight_value_witness:
  "atomic_weight no_files ''xx'' (Some two_isotopes) = Inr (10.76)"
  using natural_weight_value [of no_files "Some two_isotopes" two_isotopes "''xx''"
     "snd (hd two_isotopes)"]
  by (simp add: two_isotopes_def db_or_default_def canonical_symbol_def capitalize_def strip_def
      isspace_def upper_def lower_def upper_char_def lower_char_def ascii_lowercase_def
      ascii_uppercase_def lessThan_Suc numeral_2_eq_2)

text \<open>
  Claim C5.  When the canonical symbol is in the table, \<^verbatim>\<open>atomic_weight\<close>
  fails exactly when the sum of the abundances of its isotopes is more than 0.5 away from
  100; the error is then the ValueError that carries the symbol and the sum, and no value
  is returned.
\<close>

theorem abundance_validation:
  assumes "db_or_default ev db = Inr t"
    and "map_of t (canonical_symbol symb) = Some isos"
  shows "((\<exists>e. atomic_weight ev symb db = Inl e)
            \<longleftrightarrow> \<bar>sum_list (map abundance_percent isos) - 100\<bar> > 0.5)
       \<and> (\<bar>sum_list (map abundance_percent isos) - 100\<bar> > 0.5 \<longrightarrow>
            atomic_weight ev symb db
              = Inl (ValueError (AbundanceSum (canonical_symbol symb)
                       (sum_list (map abundance_percent isos)))))"
  unfolding atomic_weight_found [OF assms] by simp

theorem abundance_validation_witness:
  "atomic_weight no_files ''Xx'' (Some sum_90) = Inl (ValueError (AbundanceSum ''Xx'' 90))"
  using abundance_validation [of no_files "Some sum_90" sum_90 "''Xx''" "snd (hd sum_90)"]
  by (simp add: sum_90_def db_or_default_def canonical_symbol_def capitalize_def strip_def
      isspace_def upper_def lower_def upper_char_def lower_char_def ascii_lowercase_def
      ascii_uppercase_def)

text \<open>
  Claim C6, amended.  For a table that is not empty, a symbol whose canonical form is
  absent from it gives the KeyError that carries the canonical symbol.  A table that is
  empty or not given is replaced by the database of \<^verbatim>\<open>get_database\<close>, and
  the KeyError is raised when the canonical symbol is absent from the table looked up.
\<close>

theorem symbol_not_found:
  "(t \<noteq> [] \<and> map_of t (canonical_symbol symb) = None
      \<longrightarrow> atomic_weight ev symb (Some t) = Inl (KeyError (NoStableData (canonical_symbol symb))))
   \<and> (db_or_default ev db = Inr t \<and> map_of t (canonical_symbol symb) = None
      \<longrightarrow> atomic_weight ev symb db = Inl (KeyError (NoStableData (canonical_symbol symb))))
   \<and> db_or_default ev None = get_database ev ''isotopes.csv''
   \<and> db_or_default ev (Some []) = get_database ev ''isotopes.csv''"
  by (simp add: atomic_weight_def db_or_default_def)

theorem symbol_not_found_witness:
  "atomic_weight no_files ''Xx'' (Some SEED) = Inl (KeyError (NoStableData ''Xx''))
   \<and> atomic_weight no_files ''Xx'' (Some []) = Inl (KeyError (NoStableData ''Xx''))"
  using symbol_not_found [of SEED "''Xx''" no_files]
    symbol_not_found [of SEED "''Xx''" no_files "Some []"]
  by (simp add: SEED_def db_or_default_def get_database_def load_csv_def no_files_def
      canonical_symbol_def capitalize_def strip_def
      isspace_def upper_def lower_def upper_char_def lower_char_def ascii_lowercase_def
      ascii_uppercase_def)

text \<open>
  With the empty table and no file, the symbol Sn is absent from the table given, and
  the weight of the seed is returned.
\<close>

theorem symbol_not_found_counterexample:
  "map_of [] (canonical_symbol ''Sn'') = (None :: isotope list option)
   \<and> atomic_weight no_files ''Sn'' (Some []) = Inr (593550562965053 / 5000000000000)"
  by (simp add: SEED_def atomic_weight_def db_or_default_def get_database_def load_csv_def
      no_files_def canonical_symbol_def capitalize_def strip_def
      isspace_def upper_def lower_def upper_char_def lower_char_def ascii_lowercase_def
      ascii_uppercase_def)

section \<open>Properties of \<^verbatim>\<open>load_csv\<close>\<close>

lemma records_setdefault_append:
  "records (setdefault_append db key isot) = add_mset isot (records db)"
  unfolding records_def by (induction db key isot rule: setdefault_append.induct) auto

lemma load_rows_records:
  assumes "load_rows ev rows db = Inr db'"
  shows "\<exists>isos. map (make_isotope ev) (filter stable_marker rows) = map Inr isos
            \<and> records db' = records db + mset isos"
  using assms
proof (induction rows arbitrary: db)
  case Nil
  then show ?case by simp
next
  case (Cons r rows)
  show ?case
  proof (cases "stable_marker r")
    case False
    with Cons show ?thesis by simp
  next
    case True
    with Cons.prems obtain isot where
      mk: "make_isotope ev r = Inr isot"
      and rest: "load_rows ev rows (setdefault_append db (symbol isot) isot) = Inr db'"
      by (auto split: sum.splits)
    from Cons.IH [OF rest] obtain isos where
      isos: "map (make_isotope ev) (filter stable_marker rows) = map Inr isos"
        "records db' = records (setdefault_append db (symbol isot) isot) + mset isos"
      by blast
    have "map (make_isotope ev) (filter stable_marker (r # rows)) = map Inr (isot # isos)"
      using True mk isos(1) by simp
    moreover have "records db' = records db + mset (isot # isos)"
      using isos(2) by (simp add: records_setdefault_append)
    ultimately show ?thesis by blast
  qed
qed

lemma records_sorted:
  "records (map (\<lambda>(k, isos). (k, sort_key f isos)) db) = records db"
  unfolding records_def by (induction db) auto

lemma stable_marker_cases:
  "stable_marker r \<longleftrightarrow>
     (case map_of r ''stable'' of
        None \<Rightarrow> True
      | Some v \<Rightarrow> lower (strip (str_of v)) \<in> {''true'', ''1'', ''yes'', ''y''})"
  by (simp add: stable_marker_def row_get_def str_of_def strip_def isspace_def lower_def
      lower_char_def ascii_lowercase_def ascii_uppercase_def split: option.splits)

text \<open>
  Claim C9, amended.  When the file is loaded, the isotope records of the table are
  exactly the records made from the rows that pass the filter, one for each such row.
  A row passes when it has no \<^verbatim>\<open>stable\<close> field (the field then counts as
  "True"), or when the field, stripped and lower-cased, is one of true, 1, yes, y.
\<close>

theorem stable_rows_loaded:
  "(files ev path = Some rows \<and> load_csv ev path = Inr db \<longrightarrow>
      (\<exists>isos. map (make_isotope ev) (filter stable_marker rows) = map Inr isos
             \<and> records db = mset isos))
   \<and> (stable_marker r \<longleftrightarrow>
        (case map_of r ''stable'' of
           None \<Rightarrow> True
         | Some v \<Rightarrow> lower (strip (str_of v)) \<in> {''true'', ''1'', ''yes'', ''y''}))"
proof (intro conjI impI)
  assume a: "files ev path = Some rows \<and> load_csv ev path = Inr db"
  then obtain db0 where l: "load_rows ev rows [] = Inr db0"
    and db: "db = map (\<lambda>(k, isos). (k, sort_key A isos)) db0"
    by (auto simp: load_csv_def split: sum.splits)
  from load_rows_records [OF l] obtain isos where
    "map (make_isotope ev) (filter stable_marker rows) = map Inr isos"
    "records db0 = records [] + mset isos"
    by blast
  then show "\<exists>isos. map (make_isotope ev) (filter stable_marker rows) = map Inr isos
             \<and> records db = mset isos"
    unfolding db records_sorted by (auto simp: records_def)
next
  show "stable_marker r \<longleftrightarrow>
        (case map_of r ''stable'' of
           None \<Rightarrow> True
         | Some v \<Rightarrow> lower (strip (str_of v)) \<in> {''true'', ''1'', ''yes'', ''y''})"
    by (rule stable_marker_cases)
qed

lemmas eval_strings = strip_def isspace_def upper_def lower_def upper_char_def lower_char_def
  ascii_lowercase_def ascii_uppercase_def capitalize_def

text \<open>A row without the field is loaded.\<close>

theorem stable_rows_loaded_counterexample:
  "map_of tin_112 ''stable'' = None
   \<and> load_csv (one_file [tin_112]) ''isotopes.csv''
       = Inr [(''Sn'', [\<lparr>element = ''Tin'', symbol = ''Sn'', A = 112, mass_u = 111.9,
                         abundance_percent = 100, stable = True\<rparr>])]"
  by (simp add: tin_112_def one_file_def load_csv_def stable_marker_def row_get_def str_of_def
      make_isotope_def eval_strings)

theorem stable_rows_loaded_witness:
  "records (projr (load_csv (one_file [tin_112, (''stable'', Str ''no'') # tin_112,
                     (''stable'', Str '' YES '') # tin_112]) ''isotopes.csv''))
     = {#\<lparr>element = ''Tin'', symbol = ''Sn'', A = 112, mass_u = 111.9,
               abundance_percent = 100, stable = True\<rparr>,
         \<lparr>element = ''Tin'', symbol = ''Sn'', A = 112, mass_u = 111.9,
               abundance_percent = 100, stable = True\<rparr>#}"
  using stable_rows_loaded [of "one_file [tin_112, (''stable'', Str ''no'') # tin_112,
                     (''stable'', Str '' YES '') # tin_112]" "''isotopes.csv''"
        "[tin_112, (''stable'', Str ''no'') # tin_112, (''stable'', Str '' YES '') # tin_112]"
        "projr (load_csv (one_file [tin_112, (''stable'', Str ''no'') # tin_112,
                     (''stable'', Str '' YES '') # tin_112]) ''isotopes.csv'')"]
  by (simp add: tin_112_def one_file_def load_csv_def stable_marker_def row_get_def str_of_def
      make_isotope_def records_def eval_strings)

end
